theory Spec2Isabelle
  imports Complex_Main "HOL-Library.AList" "HOL-Library.Multiset"
begin

section \<open>The OMR evaluation app: data\<close>

text \<open>
  The development follows \<^verbatim>\<open>src/streamlit_app.py\<close>, the orchestration script of the
  repository. The script decodes each uploaded image, normalises it, resolves the
  questions to sample (from a template or from a grid estimate), hands them to the
  mark detector, scores the answers when a key is loaded, and collects one summary
  row per image. The pipeline stages themselves live in \<^verbatim>\<open>app.services.*\<close>
  and are not part of the source file; they enter the model as the fields of a
  record of services, each a function that either raises or returns.
\<close>

subsection \<open>Exceptions\<close>

text \<open>
  Only \<^verbatim>\<open>str(e)\<close> of a caught exception is ever observed by the script, so an exception
  is its message. Only the class \<^verbatim>\<open>Exception\<close> is modelled (what \<^verbatim>\<open>except Exception\<close>
  catches).
\<close>

datatype exn = Exn string

fun str :: "exn \<Rightarrow> string" where
  "str (Exn m) = m"

text \<open>
  \<^verbatim>\<open>str(KeyError(k))\<close> is \<^verbatim>\<open>repr(k)\<close>: the key in single quotes, for a key without quotes,
  backslashes or unprintable characters.
\<close>

definition key_error :: "string \<Rightarrow> exn" where
  "key_error k = Exn (CHR 0x27 # k @ [CHR 0x27])"

definition name_error :: "string \<Rightarrow> exn" where
  "name_error v = Exn (''name '' @ CHR 0x27 # v @ CHR 0x27 # '' is not defined'')"

subsection \<open>Uploaded files, templates, keys\<close>

record upload =
  uf_name :: string
  uf_bytes :: string

text \<open>
  A template is the parsed JSON document. The script reads one key of it,
  \<^verbatim>\<open>"questions"\<close>, and of every question one key, \<^verbatim>\<open>"index"\<close>; both may be absent.
  The index is an integer, as in the data model of the specification.
\<close>

type_synonym region = "rat \<times> rat \<times> rat \<times> rat"

record question =
  q_index :: "int option"
  q_subject :: string
  q_options :: "region list"

record template =
  questions :: "question list option"

text \<open>The answer key returned by \<^verbatim>\<open>parse_key_excel\<close>: question index to correct options.\<close>

type_synonym key = "(int \<times> int list) list"

text \<open>\<^verbatim>\<open>if key_map:\<close> is false for \<^verbatim>\<open>None\<close> and for an empty mapping.\<close>

definition truthy :: "key option \<Rightarrow> bool" where
  "truthy k = (case k of None \<Rightarrow> False | Some m \<Rightarrow> m \<noteq> [])"

text \<open>\<^verbatim>\<open>key_sheet or sheet_version\<close>: the left operand unless it is \<^verbatim>\<open>None\<close> or empty.\<close>

definition py_or :: "string option \<Rightarrow> string \<Rightarrow> string" where
  "py_or a b = (case a of None \<Rightarrow> b | Some s \<Rightarrow> if s = [] then b else s)"

subsection \<open>The run's configuration\<close>

text \<open>
  The widgets' values, read once per script run (lines 134 to 195), and
  \<^verbatim>\<open>settings.subjects\<close>. The sliders return floats; they are only passed on, never
  computed with, and are rationals here.
\<close>

record run_config =
  key_map :: "key option"
  key_sheet :: "string option"
  sheet_version :: string
  subjects :: "string list"
  tpl_file :: "string option"
  fill_threshold :: rat
  min_margin :: rat
  scale_x :: rat
  scale_y :: rat
  offset_x :: rat
  offset_y :: rat
  show_overlay :: bool
  save_to_db :: bool
  large_batch :: bool
  api_base_url :: string

subsection \<open>Rows, sheets, payloads, calls\<close>

text \<open>
  A summary row is a Python dict with string keys: an association list in insertion
  order, written with \<^const>\<open>AList.update\<close> (an existing key keeps its place).
\<close>

datatype cell = Str string | Num int

type_synonym row = "(string \<times> cell) list"

type_synonym sheet = "(string \<times> string list) list"

text \<open>The result of \<^verbatim>\<open>compute_scores_from_answers\<close>: a dict of subject scores and a total.\<close>

type_synonym scores = "string \<rightharpoonup> int option"

record 'ans payload =
  p_url :: string
  p_student_code :: string
  p_sheet_version :: string
  p_per_subject :: "(string \<times> cell) list"
  p_total :: cell
  p_answers :: 'ans

text \<open>
  A call of \<^verbatim>\<open>evaluate_by_questions\<close>: its two positional arguments and the keyword
  arguments the call site writes.
\<close>

record 'img det_call =
  dc_image :: 'img
  dc_questions :: "question list"
  dc_kwargs :: "(string \<times> rat) list"

record ('img, 'ans) overlay_call =
  oc_image :: 'img
  oc_template :: template
  oc_answers :: 'ans
  oc_kwargs :: "(string \<times> rat) list"

subsection \<open>The services\<close>

text \<open>
  Modelled from the spec: the pipeline stages (\<^verbatim>\<open>app.services.preprocess\<close>,
  \<^verbatim>\<open>app.services.detect\<close>, \<^verbatim>\<open>app.services.grid\<close>, \<^verbatim>\<open>app.services.omr\<close>,
  \<^verbatim>\<open>app.services.omr_template\<close>) and the libraries the script calls (PIL, json,
  pandas, requests) are missing from the source. The specification makes each stage
  a pure computation of its arguments that may fail, so each is a function into
  \<open>exn + result\<close>. \<open>image_open\<close> stands for decoding the upload into an RGB array
  (\<^verbatim>\<open>Image.open\<close>, \<^verbatim>\<open>convert\<close>, \<^verbatim>\<open>np.array\<close>); \<open>import_requests\<close> is the outcome
  of \<^verbatim>\<open>import requests\<close> (\<open>None\<close>: the module loads); \<open>splitext\<close> is the first
  component of \<^verbatim>\<open>os.path.splitext\<close>; \<open>img_shape\<close> is \<^verbatim>\<open>np_img.shape[:2]\<close>, height
  first. A failing import of one of the application's modules inside the loop counts
  as a failure of the first stage called from that module.
\<close>

record ('img, 'ans) services =
  image_open :: "upload \<Rightarrow> exn + 'img"
  detect_orientation :: "'img \<Rightarrow> exn + ('img \<times> int)"
  rectify_perspective :: "'img \<Rightarrow> exn + 'img"
  json_loads :: "string \<Rightarrow> exn + template"
  img_shape :: "'img \<Rightarrow> nat \<times> nat"
  estimate_grid_rois :: "nat \<Rightarrow> nat \<Rightarrow> exn + question list"
  evaluate_by_questions :: "'img det_call \<Rightarrow> exn + 'ans"
  compute_scores_from_answers :: "'ans \<Rightarrow> key \<Rightarrow> exn + (scores \<times> int option)"
  format_answers_as_columns :: "'ans \<Rightarrow> exn + sheet"
  data_frame :: "sheet \<Rightarrow> exn + sheet"
  import_requests :: "exn option"
  splitext :: "string \<Rightarrow> string"
  post_result :: "'ans payload \<Rightarrow> exn + unit"
  draw_overlay :: "('img, 'ans) overlay_call \<Rightarrow> exn + 'img"

subsection \<open>The loop's variables\<close>

text \<open>
  The variables that outlive one iteration of the loop: \<^verbatim>\<open>results\<close>,
  \<^verbatim>\<open>detailed_sheets\<close> and \<^verbatim>\<open>answers\<close> (read again by the overlay preview; \<open>None\<close>
  while the name is unbound). Every other name of the loop body is assigned before
  it is read in the same iteration and is a local binding here. Two traces record the
  effects of the body: the calls made to the mark detector and the payloads posted.
\<close>

record ('img, 'ans) loop_state =
  results :: "row list"
  detailed_sheets :: "(string \<times> sheet) list"
  answers :: "'ans option"
  det_calls :: "'img det_call list"
  posts :: "'ans payload list"

definition init_state :: "('img, 'ans) loop_state" where
  "init_state = \<lparr>results = [], detailed_sheets = [], answers = None, det_calls = [], posts = []\<rparr>"

section \<open>The evaluation loop\<close>

subsection \<open>Preprocessing (lines 210 to 216)\<close>

text \<open>
  \<^verbatim>\<open>
  image = Image.open(uf).convert("RGB")
  np_img = np.array(image)
  np_img, _ = detect_orientation(np_img)
  np_img = rectify_perspective(np_img)
  \<close>
\<close>

definition load_image :: "('img, 'ans) services \<Rightarrow> upload \<Rightarrow> exn + 'img" where
  "load_image env uf =
     (case image_open env uf of
        Inl e \<Rightarrow> Inl e
      | Inr raw \<Rightarrow>
          (case detect_orientation env raw of
             Inl e \<Rightarrow> Inl e
           | Inr (oriented, rot) \<Rightarrow> rectify_perspective env oriented))"

subsection \<open>Resolving the questions (lines 219 to 236)\<close>

text \<open>
  \<^verbatim>\<open>
  if tpl_file is not None:
      tpl = _json.loads(tpl_file.getvalue().decode("utf-8"))
      questions = sorted(tpl.get("questions", []), key=lambda q: q.get("index", 0))
      answers = evaluate_by_questions(np_img, questions,
                    scale_x=scale_x, scale_y=scale_y, offset_x=offset_x, offset_y=offset_y)
  else:
      h, w = np_img.shape[:2]
      questions = estimate_grid_rois(w, h)
      answers = evaluate_by_questions(np_img, questions)
  \<close>
  Python's \<^verbatim>\<open>sorted\<close> is a stable sort, as \<^const>\<open>sort_key\<close> is.
\<close>

definition question_key :: "question \<Rightarrow> int" where
  "question_key q = (case q_index q of None \<Rightarrow> 0 | Some i \<Rightarrow> i)"

definition declared_questions :: "template \<Rightarrow> question list" where
  "declared_questions tpl = (case questions tpl of None \<Rightarrow> [] | Some qs \<Rightarrow> qs)"

definition template_questions :: "template \<Rightarrow> question list" where
  "template_questions tpl = sort_key question_key (declared_questions tpl)"

definition alignment_kwargs :: "run_config \<Rightarrow> (string \<times> rat) list" where
  "alignment_kwargs cfg =
     [(''scale_x'', scale_x cfg), (''scale_y'', scale_y cfg),
      (''offset_x'', offset_x cfg), (''offset_y'', offset_y cfg)]"

definition resolve_call ::
  "('img, 'ans) services \<Rightarrow> run_config \<Rightarrow> 'img \<Rightarrow> exn + 'img det_call" where
  "resolve_call env cfg np_img =
     (case tpl_file cfg of
        Some bytes \<Rightarrow>
          (case json_loads env bytes of
             Inl e \<Rightarrow> Inl e
           | Inr tpl \<Rightarrow>
               Inr \<lparr>dc_image = np_img, dc_questions = template_questions tpl,
                    dc_kwargs = alignment_kwargs cfg\<rparr>)
      | None \<Rightarrow>
          (case img_shape env np_img of
             (h, w) \<Rightarrow>
               (case estimate_grid_rois env w h of
                  Inl e \<Rightarrow> Inl e
                | Inr qs \<Rightarrow> Inr \<lparr>dc_image = np_img, dc_questions = qs, dc_kwargs = []\<rparr>)))"

subsection \<open>Scores and the summary row (lines 239 to 250)\<close>

text \<open>
  \<^verbatim>\<open>
  per_subj_scores = {s: None for s in settings.subjects}
  total_score = None
  if key_map:
      per_subj_scores, total_score = compute_scores_from_answers(answers, key_map)
  \<close>
\<close>

definition score_answers ::
  "('img, 'ans) services \<Rightarrow> run_config \<Rightarrow> 'ans \<Rightarrow> exn + (scores \<times> int option)" where
  "score_answers env cfg ans =
     (case key_map cfg of
        None \<Rightarrow> Inr (\<lambda>s. if s \<in> set (subjects cfg) then Some None else None, None)
      | Some km \<Rightarrow>
          if km \<noteq> [] then compute_scores_from_answers env ans km
          else Inr (\<lambda>s. if s \<in> set (subjects cfg) then Some None else None, None))"

text \<open>
  \<^verbatim>\<open>
  row = {"filename": uf.name, "Set": key_sheet or sheet_version}
  for s in settings.subjects:
      if per_subj_scores[s] is not None:
          row[s] = per_subj_scores[s]
  if total_score is not None:
      row["total"] = total_score
  \<close>
  \<^verbatim>\<open>per_subj_scores[s]\<close> raises \<^verbatim>\<open>KeyError\<close> when the scorer's dict lacks a subject.
\<close>

fun add_subjects :: "scores \<Rightarrow> string list \<Rightarrow> row \<Rightarrow> exn + row" where
  "add_subjects sc [] row = Inr row"
| "add_subjects sc (s # ss) row =
     (case sc s of
        None \<Rightarrow> Inl (key_error s)
      | Some None \<Rightarrow> add_subjects sc ss row
      | Some (Some v) \<Rightarrow> add_subjects sc ss (AList.update s (Num v) row))"

definition base_row :: "run_config \<Rightarrow> upload \<Rightarrow> row" where
  "base_row cfg uf =
     [(''filename'', Str (uf_name uf)), (''Set'', Str (py_or (key_sheet cfg) (sheet_version cfg)))]"

definition summary_row :: "run_config \<Rightarrow> upload \<Rightarrow> scores \<Rightarrow> int option \<Rightarrow> exn + row" where
  "summary_row cfg uf per_subj_scores total_score =
     (case add_subjects per_subj_scores (subjects cfg) (base_row cfg uf) of
        Inl e \<Rightarrow> Inl e
      | Inr row \<Rightarrow>
          (case total_score of
             None \<Rightarrow> Inr row
           | Some t \<Rightarrow> Inr (AList.update ''total'' (Num t) row)))"

definition error_row :: "upload \<Rightarrow> exn \<Rightarrow> row" where
  "error_row uf e = [(''filename'', Str (uf_name uf)), (''error'', Str (str e))]"

subsection \<open>Per-image sheet and the POST (lines 253 to 276)\<close>

text \<open>
  \<^verbatim>\<open>
  if not large_batch:
      cols = format_answers_as_columns(answers)
      detailed_sheets.append((uf.name, pd.DataFrame(cols)))
  \<close>
\<close>

definition add_sheet ::
  "('img, 'ans) services \<Rightarrow> run_config \<Rightarrow> upload \<Rightarrow> 'ans \<Rightarrow> ('img, 'ans) loop_state \<Rightarrow>
     exn + ('img, 'ans) loop_state" where
  "add_sheet env cfg uf ans st =
     (if large_batch cfg then Inr st
      else
        (case format_answers_as_columns env ans of
           Inl e \<Rightarrow> Inl e
         | Inr cols \<Rightarrow>
             (case data_frame env cols of
                Inl e \<Rightarrow> Inl e
              | Inr df \<Rightarrow> Inr (st\<lparr>detailed_sheets := detailed_sheets st @ [(uf_name uf, df)]\<rparr>))))"

text \<open>
  \<^verbatim>\<open>
  per_subj_scores = {s: row.get(s) for s in settings.subjects if s in row}
  student_code = os.path.splitext(uf.name)[0]
  payload = {"student_code": student_code, "sheet_version": key_sheet or sheet_version,
             "per_subject": per_subj_scores, "total": row.get("total", 0),
             "details": {"answers": answers}}
  \<close>
  The comprehension keeps one entry per subject, at the place of its first occurrence.
\<close>

definition make_payload ::
  "('img, 'ans) services \<Rightarrow> run_config \<Rightarrow> upload \<Rightarrow> row \<Rightarrow> 'ans \<Rightarrow> 'ans payload" where
  "make_payload env cfg uf row ans =
     \<lparr>p_url = api_base_url cfg @ ''/api/results/'',
      p_student_code = splitext env (uf_name uf),
      p_sheet_version = py_or (key_sheet cfg) (sheet_version cfg),
      p_per_subject =
        List.map_filter (\<lambda>s. map_option (Pair s) (map_of row s)) (rev (remdups (rev (subjects cfg)))),
      p_total = (case map_of row ''total'' of None \<Rightarrow> Num 0 | Some c \<Rightarrow> c),
      p_answers = ans\<rparr>"

text \<open>
  \<^verbatim>\<open>
  if save_to_db and key_map:
      ...
      import requests
      try:
          payload = {...}
          requests.post(f"{API_BASE_URL}/api/results/", json=payload, timeout=2)
      except Exception:
          pass
  \<close>
  The import stands outside the inner \<^verbatim>\<open>try\<close>; the POST stands inside it, and both of
  its outcomes leave the same state. The result pairs the state reached with the
  exception that left the block, if any.
\<close>

definition save_result ::
  "('img, 'ans) services \<Rightarrow> run_config \<Rightarrow> upload \<Rightarrow> row \<Rightarrow> 'ans \<Rightarrow> ('img, 'ans) loop_state \<Rightarrow>
     ('img, 'ans) loop_state \<times> exn option" where
  "save_result env cfg uf row ans st =
     (if save_to_db cfg \<and> truthy (key_map cfg) then
        (case import_requests env of
           Some e \<Rightarrow> (st, Some e)
         | None \<Rightarrow>
             (let payload = make_payload env cfg uf row ans;
                  st' = st\<lparr>posts := posts st @ [payload]\<rparr>
              in case post_result env payload of
                   Inl e \<Rightarrow> (st', None)
                 | Inr u \<Rightarrow> (st', None)))
      else (st, None))"

subsection \<open>The body of the outer try (lines 210 to 276)\<close>

text \<open>
  Each stage that raises leaves the block with the state as it is at that moment:
  what was appended before the exception stays appended.
\<close>

definition after_answers ::
  "('img, 'ans) services \<Rightarrow> run_config \<Rightarrow> upload \<Rightarrow> 'ans \<Rightarrow> ('img, 'ans) loop_state \<Rightarrow>
     ('img, 'ans) loop_state \<times> exn option" where
  "after_answers env cfg uf ans st =
     (case score_answers env cfg ans of
        Inl e \<Rightarrow> (st, Some e)
      | Inr (per_subj_scores, total_score) \<Rightarrow>
          (case summary_row cfg uf per_subj_scores total_score of
             Inl e \<Rightarrow> (st, Some e)
           | Inr row \<Rightarrow>
               (let st1 = st\<lparr>results := results st @ [row]\<rparr>
                in case add_sheet env cfg uf ans st1 of
                     Inl e \<Rightarrow> (st1, Some e)
                   | Inr st2 \<Rightarrow> save_result env cfg uf row ans st2)))"

definition try_body ::
  "('img, 'ans) services \<Rightarrow> run_config \<Rightarrow> ('img, 'ans) loop_state \<Rightarrow> upload \<Rightarrow>
     ('img, 'ans) loop_state \<times> exn option" where
  "try_body env cfg st uf =
     (case load_image env uf of
        Inl e \<Rightarrow> (st, Some e)
      | Inr np_img \<Rightarrow>
          (case resolve_call env cfg np_img of
             Inl e \<Rightarrow> (st, Some e)
           | Inr call \<Rightarrow>
               (let st1 = st\<lparr>det_calls := det_calls st @ [call]\<rparr>
                in case evaluate_by_questions env call of
                     Inl e \<Rightarrow> (st1, Some e)
                   | Inr ans \<Rightarrow> after_answers env cfg uf ans (st1\<lparr>answers := Some ans\<rparr>))))"

text \<open>
  \<^verbatim>\<open>
  for i, uf in enumerate(uploaded_files, 1):
      try:
          ...
      except Exception as e:
          results.append({"filename": uf.name, "error": str(e)})
      progress.progress(int(i * 100 / len(uploaded_files)))
  \<close>
  The progress bar is display only and is left out.
\<close>

definition image_step ::
  "('img, 'ans) services \<Rightarrow> run_config \<Rightarrow> ('img, 'ans) loop_state \<Rightarrow> upload \<Rightarrow>
     ('img, 'ans) loop_state" where
  "image_step env cfg st uf =
     (case try_body env cfg st uf of
        (st', None) \<Rightarrow> st'
      | (st', Some e) \<Rightarrow> st'\<lparr>results := results st' @ [error_row uf e]\<rparr>)"

definition evaluation_loop ::
  "('img, 'ans) services \<Rightarrow> run_config \<Rightarrow> upload list \<Rightarrow> ('img, 'ans) loop_state" where
  "evaluation_loop env cfg uploaded_files = foldl (image_step env cfg) init_state uploaded_files"

section \<open>The overlay preview (lines 284 to 299)\<close>

text \<open>
  \<^verbatim>\<open>
  if tpl_file is not None and show_overlay and uploaded_files and not large_batch:
      tpl = _json.loads(tpl_file.getvalue().decode("utf-8"))
      try:
          first_img = Image.open(uploaded_files[0]).convert("RGB")
          np_first = np.array(first_img)
          np_first, _ = detect_orientation(np_first)
          np_first = rectify_perspective(np_first)
          overlay = draw_overlay(np_first, tpl, answers,
                                 scale_x=scale_x, scale_y=scale_y,
                                 offset_x=offset_x, offset_y=offset_y)
          st.image(overlay, caption="ROI overlay (first image)", use_container_width=True)
      except Exception as e:
          st.info(f"Could not render overlay: {e}")
  \<close>
  \<^verbatim>\<open>answers\<close> is the loop's variable, read after the loop has ended; reading it while
  it is unbound raises \<^verbatim>\<open>NameError\<close>. The template is parsed outside the \<^verbatim>\<open>try\<close>.
\<close>

definition overlay_args ::
  "('img, 'ans) services \<Rightarrow> run_config \<Rightarrow> template \<Rightarrow> upload list \<Rightarrow> ('img, 'ans) loop_state \<Rightarrow>
     exn + ('img, 'ans) overlay_call" where
  "overlay_args env cfg tpl uploaded_files st =
     (case uploaded_files of
        [] \<Rightarrow> Inl (Exn ''list index out of range'')
      | first # rest \<Rightarrow>
          (case load_image env first of
             Inl e \<Rightarrow> Inl e
           | Inr np_first \<Rightarrow>
               (case answers st of
                  None \<Rightarrow> Inl (name_error ''answers'')
                | Some ans \<Rightarrow>
                    Inr \<lparr>oc_image = np_first, oc_template = tpl, oc_answers = ans,
                         oc_kwargs = alignment_kwargs cfg\<rparr>)))"

datatype 'img overlay_outcome =
    NoOverlay
  | OverlayImage 'img
  | OverlayInfo string
  | OverlayAbort exn

definition overlay_preview ::
  "('img, 'ans) services \<Rightarrow> run_config \<Rightarrow> upload list \<Rightarrow> ('img, 'ans) loop_state \<Rightarrow>
     'img overlay_outcome" where
  "overlay_preview env cfg uploaded_files st =
     (case tpl_file cfg of
        None \<Rightarrow> NoOverlay
      | Some bytes \<Rightarrow>
          if show_overlay cfg \<and> uploaded_files \<noteq> [] \<and> \<not> large_batch cfg then
            (case json_loads env bytes of
               Inl e \<Rightarrow> OverlayAbort e
             | Inr tpl \<Rightarrow>
                 (case overlay_args env cfg tpl uploaded_files st of
                    Inl e \<Rightarrow> OverlayInfo (''Could not render overlay: '' @ str e)
                  | Inr call \<Rightarrow>
                      (case draw_overlay env call of
                         Inl e \<Rightarrow> OverlayInfo (''Could not render overlay: '' @ str e)
                       | Inr overlay \<Rightarrow> OverlayImage overlay)))
          else NoOverlay)"

section \<open>The script from the upload on (lines 197 to 299)\<close>

text \<open>
  \<^verbatim>\<open>
  if uploaded_files:
      if len(uploaded_files) > 500:
          st.warning("You uploaded more than 500 files; only the first 500 will be evaluated.")
          uploaded_files = uploaded_files[:500]
      ...
      if st.button(f"Evaluate {len(uploaded_files)} image(s)"):
          <the loop>
          <the overlay preview>
  \<close>
  The result is \<open>None\<close> when nothing is evaluated (no upload, or the button is not
  pressed). The tables, charts and downloads rendered from \<^verbatim>\<open>results\<close> afterwards
  (lines 301 to 355) are not part of the model.
\<close>

definition evaluated_files :: "upload list \<Rightarrow> upload list" where
  "evaluated_files uploaded_files =
     (if length uploaded_files > 500 then take 500 uploaded_files else uploaded_files)"

definition too_many_warning :: "upload list \<Rightarrow> bool" where
  "too_many_warning uploaded_files = (length uploaded_files > 500)"

record ('img, 'ans) app_output =
  out_state :: "('img, 'ans) loop_state"
  out_overlay :: "'img overlay_outcome"

definition app_run ::
  "('img, 'ans) services \<Rightarrow> run_config \<Rightarrow> bool \<Rightarrow> upload list \<Rightarrow> ('img, 'ans) app_output option" where
  "app_run env cfg button uploaded_files =
     (if uploaded_files = [] then None
      else
        (let files = evaluated_files uploaded_files in
         if button then
           (let st = evaluation_loop env cfg files
            in Some \<lparr>out_state = st, out_overlay = overlay_preview env cfg files st\<rparr>)
         else None))"

section \<open>The mark detector's decision rule\<close>

text \<open>
  Modelled from the spec: the mark detector (\<^verbatim>\<open>app.services.detect\<close>) is not in the
  source. Section 4.4 of the specification gives its rule for one question: sort the
  options by fill fraction, descending; if the top fraction is below the fill threshold
  the verdict is none-marked; else if the top two fractions differ by less than the
  minimum margin it is ambiguous-multiple; else it is the top option's index. Fill
  fractions are exact rationals here. The sort is stable, so that among equal fractions
  the earlier option ranks first; the specification requires at least two options per
  question and says nothing about fewer, where the model gives no verdict.
\<close>

datatype verdict = Selected nat | NoneMarked | AmbiguousMultiple

definition ranked :: "rat list \<Rightarrow> (nat \<times> rat) list" where
  "ranked fs = sort_key (\<lambda>p. - snd p) (enumerate 0 fs)"

definition classify :: "rat \<Rightarrow> rat \<Rightarrow> rat list \<Rightarrow> verdict option" where
  "classify threshold margin fs =
     (case ranked fs of
        (i, first) # (j, second) # rest \<Rightarrow>
          Some (if first < threshold then NoneMarked
                else if first - second < margin then AmbiguousMultiple
                else Selected i)
      | _ \<Rightarrow> None)"

section \<open>Notions used in the statements\<close>

text \<open>
  What one iteration adds to the loop's variables: \<open>extend st d\<close> appends the lists of
  \<open>d\<close> to those of \<open>st\<close> and rebinds \<^verbatim>\<open>answers\<close> when \<open>d\<close> binds it.
\<close>

definition extend ::
  "('img, 'ans) loop_state \<Rightarrow> ('img, 'ans) loop_state \<Rightarrow> ('img, 'ans) loop_state" where
  "extend st d =
     \<lparr>results = results st @ results d,
      detailed_sheets = detailed_sheets st @ detailed_sheets d,
      answers = (case answers d of None \<Rightarrow> answers st | Some a \<Rightarrow> Some a),
      det_calls = det_calls st @ det_calls d,
      posts = posts st @ posts d\<rparr>"

text \<open>The rows one image contributes to \<^verbatim>\<open>results\<close>.\<close>

definition image_rows :: "('img, 'ans) services \<Rightarrow> run_config \<Rightarrow> upload \<Rightarrow> row list" where
  "image_rows env cfg uf = results (image_step env cfg init_state uf)"

section \<open>Concrete inputs\<close>

text \<open>
  A small instance of the services, used to run the model: an image is the file's
  bytes, the detector's answers are a string naming the image it read.
\<close>

definition demo_template :: template where
  "demo_template =
     \<lparr>questions = Some
        [\<lparr>q_index = Some 2, q_subject = ''Math'', q_options = []\<rparr>,
         \<lparr>q_index = None, q_subject = ''Math'', q_options = []\<rparr>,
         \<lparr>q_index = Some 1, q_subject = ''Physics'', q_options = []\<rparr>]\<rparr>"

definition demo_env :: "(string, string) services" where
  "demo_env =
     \<lparr>image_open = (\<lambda>uf. Inr (uf_bytes uf)),
      detect_orientation = (\<lambda>img. Inr (img, 0)),
      rectify_perspective = (\<lambda>img. Inr img),
      json_loads = (\<lambda>bytes. Inr demo_template),
      img_shape = (\<lambda>img. (1, 1)),
      estimate_grid_rois = (\<lambda>w h. Inr []),
      evaluate_by_questions = (\<lambda>call. Inr (''answers of '' @ dc_image call)),
      compute_scores_from_answers = (\<lambda>ans km. Inr ([''Math'' \<mapsto> Some 1], Some 1)),
      format_answers_as_columns = (\<lambda>ans. Inr [(''Q'', [ans])]),
      data_frame = (\<lambda>cols. Inr cols),
      import_requests = None,
      splitext = (\<lambda>n. takeWhile (\<lambda>c. c \<noteq> CHR ''.'') n),
      post_result = (\<lambda>p. Inr ()),
      draw_overlay = (\<lambda>call. Inr (oc_image call @ '' with '' @ oc_answers call))\<rparr>"

definition demo_cfg :: run_config where
  "demo_cfg =
     \<lparr>key_map = None, key_sheet = None, sheet_version = ''A'', subjects = [''Math''],
      tpl_file = Some ''{}'', fill_threshold = 9 / 20, min_margin = 3 / 25,
      scale_x = 1, scale_y = 1, offset_x = 0, offset_y = 0,
      show_overlay = True, save_to_db = False, large_batch = False,
      api_base_url = ''http://localhost:8000''\<rparr>"

definition sheet1 :: upload where
  "sheet1 = \<lparr>uf_name = ''one.png'', uf_bytes = ''pixels1''\<rparr>"

definition sheet2 :: upload where
  "sheet2 = \<lparr>uf_name = ''two.png'', uf_bytes = ''pixels2''\<rparr>"

text \<open>A run with an answer key loaded and saving switched on.\<close>

definition keyed_cfg :: run_config where
  "keyed_cfg = demo_cfg\<lparr>key_map := Some [(1, [2])], key_sheet := Some ''Set B'', save_to_db := True\<rparr>"

text \<open>The same services, but building the per-image sheet raises.\<close>

definition sheet_error_env :: "(string, string) services" where
  "sheet_error_env = demo_env\<lparr>format_answers_as_columns := (\<lambda>ans. Inl (Exn ''bad columns''))\<rparr>"

section \<open>Properties of the loop\<close>

subsection \<open>One iteration extends the state\<close>

lemma extend_init [simp]: "extend st init_state = st"
  by (simp add: extend_def init_state_def)

lemma init_extend [simp]: "extend init_state d = d"
  by (simp add: extend_def init_state_def split: option.splits)

lemma extend_assoc: "extend (extend a b) c = extend a (extend b c)"
  by (simp add: extend_def split: option.splits)

lemma extend_simps [simp]:
  "results (extend st d) = results st @ results d"
  "detailed_sheets (extend st d) = detailed_sheets st @ detailed_sheets d"
  "answers (extend st d) = (case answers d of None \<Rightarrow> answers st | Some a \<Rightarrow> Some a)"
  "det_calls (extend st d) = det_calls st @ det_calls d"
  "posts (extend st d) = posts st @ posts d"
  by (simp_all add: extend_def)

lemma init_simps [simp]:
  "results init_state = []" "detailed_sheets init_state = []" "answers init_state = None"
  "det_calls init_state = []" "posts init_state = []"
  by (simp_all add: init_state_def)

lemma after_answers_extend:
  "after_answers env cfg uf ans st =
     (case after_answers env cfg uf ans init_state of (d, r) \<Rightarrow> (extend st d, r))"
  by (auto simp: after_answers_def Let_def add_sheet_def save_result_def
      split: sum.splits option.splits prod.splits intro!: loop_state.equality)

lemma try_body_extend:
  "try_body env cfg st uf =
     (case try_body env cfg init_state uf of (d, r) \<Rightarrow> (extend st d, r))"
proof (cases "load_image env uf")
  case (Inl e)
  then show ?thesis by (simp add: try_body_def)
next
  case img: (Inr np_img)
  show ?thesis
  proof (cases "resolve_call env cfg np_img")
    case (Inl e)
    with img show ?thesis by (simp add: try_body_def)
  next
    case call: (Inr call)
    show ?thesis
    proof (cases "evaluate_by_questions env call")
      case (Inl e)
      with img call show ?thesis
        by (auto simp: try_body_def Let_def intro!: loop_state.equality)
    next
      case (Inr ans)
      obtain d r where d: "after_answers env cfg uf ans init_state = (d, r)"
        by (cases "after_answers env cfg uf ans init_state")
      have a: "after_answers env cfg uf ans s = (extend s d, r)" for s
        using after_answers_extend [of env cfg uf ans s] d by simp
      show ?thesis using img call Inr
        by (auto simp: try_body_def Let_def a split: option.splits intro!: loop_state.equality)
    qed
  qed
qed

lemma image_step_extend:
  "image_step env cfg st uf = extend st (image_step env cfg init_state uf)"
proof (cases "try_body env cfg init_state uf")
  case (Pair d r)
  with try_body_extend [of env cfg st uf] have "try_body env cfg st uf = (extend st d, r)"
    by simp
  with Pair show ?thesis
    by (cases r) (auto simp: image_step_def intro!: loop_state.equality)
qed

lemma foldl_image_step:
  "foldl (image_step env cfg) st files = extend st (foldl (image_step env cfg) init_state files)"
proof (induction files arbitrary: st)
  case Nil
  show ?case by simp
next
  case (Cons uf files)
  have "foldl (image_step env cfg) st (uf # files)
        = extend (image_step env cfg st uf) (foldl (image_step env cfg) init_state files)"
    using Cons.IH [of "image_step env cfg st uf"] by simp
  also have "\<dots> = extend st (extend (image_step env cfg init_state uf) (foldl (image_step env cfg) init_state files))"
    by (subst image_step_extend) (simp add: extend_assoc)
  also have "extend (image_step env cfg init_state uf) (foldl (image_step env cfg) init_state files)
        = foldl (image_step env cfg) init_state (uf # files)"
    using Cons.IH [of "image_step env cfg init_state uf"] by simp
  finally show ?case .
qed

lemma loop_Cons:
  "evaluation_loop env cfg (uf # files) = extend (image_step env cfg init_state uf) (evaluation_loop env cfg files)"
  unfolding evaluation_loop_def using foldl_image_step [of env cfg "image_step env cfg init_state uf" files] by simp

lemma loop_Nil: "evaluation_loop env cfg [] = init_state"
  by (simp add: evaluation_loop_def)

lemma loop_results:
  "results (evaluation_loop env cfg files) = concat (map (image_rows env cfg) files)"
  by (induction files) (simp_all add: loop_Nil loop_Cons extend_def image_rows_def init_state_def)

lemma loop_det_calls:
  "det_calls (evaluation_loop env cfg files) = concat (map (\<lambda>uf. det_calls (image_step env cfg init_state uf)) files)"
  by (induction files) (simp_all add: loop_Nil loop_Cons)

lemma image_rows_cases:
  "(\<exists>r. image_rows env cfg uf = [r]) \<or> (\<exists>r e. image_rows env cfg uf = [r, error_row uf e])"
  by (auto simp: image_rows_def image_step_def try_body_def after_answers_def add_sheet_def save_result_def Let_def
      split: sum.splits option.splits prod.splits)

lemma image_rows_nonempty: "image_rows env cfg uf \<noteq> []"
  using image_rows_cases [of env cfg uf] by auto

lemma step_calls_resolved:
  "c \<in> set (det_calls (image_step env cfg init_state uf)) \<Longrightarrow> \<exists>img. resolve_call env cfg img = Inr c"
  by (auto simp: image_step_def try_body_def after_answers_def add_sheet_def save_result_def Let_def
      split: sum.splits option.splits prod.splits if_splits)

lemma loop_calls_resolved:
  "c \<in> set (det_calls (evaluation_loop env cfg files)) \<Longrightarrow> \<exists>img. resolve_call env cfg img = Inr c"
  by (auto simp: loop_det_calls dest: step_calls_resolved)

lemma tunables_unused_step:
  "image_step env (cfg\<lparr>fill_threshold := t, min_margin := m\<rparr>) st uf = image_step env cfg st uf"
proof -
  let ?cfg = "cfg\<lparr>fill_threshold := t, min_margin := m\<rparr>"
  have a: "resolve_call env ?cfg = resolve_call env cfg"
    by (intro ext) (simp add: resolve_call_def alignment_kwargs_def split: option.splits sum.splits prod.splits)
  have b: "score_answers env ?cfg = score_answers env cfg"
    by (intro ext) (simp add: score_answers_def split: option.splits)
  have c: "summary_row ?cfg = summary_row cfg"
    by (intro ext) (simp add: summary_row_def base_row_def)
  have d: "add_sheet env ?cfg = add_sheet env cfg"
    by (intro ext) (simp add: add_sheet_def)
  have e: "save_result env ?cfg = save_result env cfg"
    by (intro ext) (simp add: save_result_def make_payload_def split: option.splits)
  show ?thesis
    unfolding image_step_def try_body_def after_answers_def a b c d e ..
qed

lemma tunables_unused:
  "evaluation_loop env (cfg\<lparr>fill_threshold := t, min_margin := m\<rparr>) files = evaluation_loop env cfg files"
proof -
  have "image_step env (cfg\<lparr>fill_threshold := t, min_margin := m\<rparr>) = image_step env cfg"
    by (intro ext) (rule tunables_unused_step)
  then show ?thesis by (simp add: evaluation_loop_def)
qed

subsection \<open>Running the concrete inputs\<close>

lemmas demo_defs =
  evaluation_loop_def image_step_def try_body_def after_answers_def load_image_def resolve_call_def
  score_answers_def summary_row_def base_row_def add_sheet_def save_result_def error_row_def py_or_def
  demo_env_def demo_cfg_def keyed_cfg_def sheet1_def sheet2_def init_state_def Let_def template_questions_def
  declared_questions_def question_key_def demo_template_def alignment_kwargs_def truthy_def make_payload_def

subsection \<open>Records per image, the detector's arguments, the overlay\<close>

text \<open>
  C2. Claim: every evaluated image yields exactly one result record, an exception
  while processing an image being recorded as that image's failure row. The summary
  row is appended at line 251, inside the \<^verbatim>\<open>try\<close>, before the per-image sheet is
  built and before the result is saved; an exception raised after line 251 reaches the
  handler of line 277, which appends a second row for the same image. Here one image
  whose sheet cannot be built leaves two records, a summary row and a failure row.
\<close>

theorem sheet_failure_two_rows:
  "results (evaluation_loop sheet_error_env demo_cfg [sheet1]) =
     [[(''filename'', Str ''one.png''), (''Set'', Str ''A'')],
      [(''filename'', Str ''one.png''), (''error'', Str ''bad columns'')]]"
  by (simp add: demo_defs sheet_error_env_def)

text \<open>
  C3. Claim: mark detection uses the run's fill threshold and minimum margin. The two
  sliders of lines 172 and 173 are read, but neither call of \<^verbatim>\<open>evaluate_by_questions\<close>
  passes them: the template-guided call passes the four alignment values only and the
  grid call passes no keyword at all. Moving both sliders leaves the detector's calls
  as they were.
\<close>

theorem detector_call_ignores_tunables:
  "det_calls (evaluation_loop demo_env (demo_cfg\<lparr>fill_threshold := 9 / 10, min_margin := 1 / 2\<rparr>) [sheet1])
     = det_calls (evaluation_loop demo_env demo_cfg [sheet1]) \<and>
   map dc_kwargs (det_calls (evaluation_loop demo_env demo_cfg [sheet1]))
     = [[(''scale_x'', 1), (''scale_y'', 1), (''offset_x'', 0), (''offset_y'', 0)]] \<and>
   map dc_kwargs (det_calls (evaluation_loop demo_env (demo_cfg\<lparr>tpl_file := None\<rparr>) [sheet1])) = [[]]"
  by (simp add: demo_defs)

text \<open>
  C4. Claim: the overlay of the first image is drawn from the answers detected for
  that image. \<^verbatim>\<open>answers\<close> at line 294 is the loop's variable as the last iteration
  that reached the detector left it: with two images the first image's pixels are
  drawn with the second image's answers.
\<close>

theorem overlay_uses_last_answers:
  "map_option out_overlay (app_run demo_env demo_cfg True [sheet1, sheet2])
     = Some (OverlayImage ''pixels1 with answers of pixels2'') \<and>
   answers (evaluation_loop demo_env demo_cfg [sheet1]) = Some ''answers of pixels1''"
  by (simp add: app_run_def evaluated_files_def overlay_preview_def overlay_args_def demo_defs)

text \<open>
  C5. In a template-guided run every call of the mark detector receives the template's
  questions sorted by ascending index (a question without an index counting as index
  0): the list is sorted, it holds the same questions as the template, and questions of
  equal index keep the template's order.
\<close>

theorem template_questions_sorted:
  assumes "tpl_file cfg = Some bytes" and "json_loads env bytes = Inr tpl"
  shows "(\<forall>c\<in>set (det_calls (evaluation_loop env cfg files)). dc_questions c = template_questions tpl) \<and>
         sorted (map question_key (template_questions tpl)) \<and>
         mset (template_questions tpl) = mset (declared_questions tpl) \<and>
         (\<forall>k. filter (\<lambda>q. question_key q = k) (template_questions tpl)
               = filter (\<lambda>q. question_key q = k) (declared_questions tpl))"
proof -
  have "dc_questions c = template_questions tpl"
    if "c \<in> set (det_calls (evaluation_loop env cfg files))" for c
  proof -
    from that obtain img where "resolve_call env cfg img = Inr c"
      using loop_calls_resolved by blast
    with assms show ?thesis
      by (auto simp: resolve_call_def)
  qed
  then show ?thesis
    by (simp add: template_questions_def sort_key_stable)
qed

theorem template_questions_sorted_witness:
  "map (map q_index \<circ> dc_questions) (det_calls (evaluation_loop demo_env demo_cfg [sheet1]))
     = [[None, Some 1, Some 2]] \<and>
   map q_index (template_questions demo_template) = [None, Some 1, Some 2]"
proof -
  have a: "tpl_file demo_cfg = Some ''{}''" by (simp add: demo_cfg_def)
  have b: "json_loads demo_env ''{}'' = Inr demo_template" by (simp add: demo_env_def)
  have c: "map q_index (template_questions demo_template) = [None, Some 1, Some 2]"
    by (simp add: template_questions_def declared_questions_def question_key_def demo_template_def)
  have d: "length (det_calls (evaluation_loop demo_env demo_cfg [sheet1])) = 1"
    by (simp add: demo_defs)
  from template_questions_sorted [OF a b, of "[sheet1]"]
  have "\<forall>c\<in>set (det_calls (evaluation_loop demo_env demo_cfg [sheet1])). dc_questions c = template_questions demo_template"
    by blast
  then have "map (map q_index \<circ> dc_questions) (det_calls (evaluation_loop demo_env demo_cfg [sheet1]))
     = map (\<lambda>c. map q_index (template_questions demo_template)) (det_calls (evaluation_loop demo_env demo_cfg [sheet1]))"
    by simp
  with c d show ?thesis
    by (cases "det_calls (evaluation_loop demo_env demo_cfg [sheet1])") simp_all
qed

subsection \<open>The outcome of the POST\<close>

lemma save_result_post:
  "save_result (env\<lparr>post_result := p\<rparr>) cfg uf row ans st = save_result env cfg uf row ans st"
  by (simp add: save_result_def make_payload_def Let_def split: option.splits sum.splits)

lemma load_image_post: "load_image (env\<lparr>post_result := p\<rparr>) = load_image env"
  by (intro ext) (simp add: load_image_def split: sum.splits prod.splits)

lemma image_step_post:
  "image_step (env\<lparr>post_result := p\<rparr>) cfg st uf = image_step env cfg st uf"
proof -
  let ?env = "env\<lparr>post_result := p\<rparr>"
  have a: "load_image ?env = load_image env"
    by (rule load_image_post)
  have b: "resolve_call ?env = resolve_call env"
    by (intro ext) (simp add: resolve_call_def split: option.splits sum.splits prod.splits)
  have c: "score_answers ?env = score_answers env"
    by (intro ext) (simp add: score_answers_def split: option.splits)
  have d: "add_sheet ?env = add_sheet env"
    by (intro ext) (simp add: add_sheet_def split: sum.splits)
  have e: "save_result ?env = save_result env"
    by (intro ext) (rule save_result_post)
  have f: "evaluate_by_questions ?env = evaluate_by_questions env"
    by simp
  show ?thesis
    unfolding image_step_def try_body_def after_answers_def a b c d e f ..
qed

lemma loop_post:
  "evaluation_loop (env\<lparr>post_result := p\<rparr>) cfg files = evaluation_loop env cfg files"
proof -
  have "image_step (env\<lparr>post_result := p\<rparr>) cfg = image_step env cfg"
    by (intro ext) (rule image_step_post)
  then show ?thesis by (simp add: evaluation_loop_def)
qed

text \<open>
  C10. Whatever the POST to the results API does, raise or return, the loop ends in
  the same state: the same rows, sheets, answers, detector calls and attempted
  payloads, for the image posted and for every image after it; the overlay preview is
  the same as well.
\<close>

theorem post_outcome_ignored:
  "evaluation_loop (env\<lparr>post_result := p\<rparr>) cfg files = evaluation_loop env cfg files \<and>
   evaluation_loop (env\<lparr>post_result := (\<lambda>payload. Inl e)\<rparr>) cfg files
     = evaluation_loop (env\<lparr>post_result := (\<lambda>payload. Inr ())\<rparr>) cfg files \<and>
   app_run (env\<lparr>post_result := p\<rparr>) cfg button files = app_run env cfg button files"
proof -
  have "overlay_args (env\<lparr>post_result := p\<rparr>) = overlay_args env"
    unfolding overlay_args_def load_image_post ..
  then have o: "overlay_preview (env\<lparr>post_result := p\<rparr>) cfg fs st = overlay_preview env cfg fs st" for fs st
    by (simp add: overlay_preview_def split: option.splits sum.splits)
  show ?thesis
    by (simp add: loop_post app_run_def o Let_def)
qed

theorem post_outcome_ignored_witness:
  "results (evaluation_loop (demo_env\<lparr>post_result := (\<lambda>payload. Inl (Exn ''timed out''))\<rparr>) keyed_cfg [sheet1, sheet2])
     = [[(''filename'', Str ''one.png''), (''Set'', Str ''Set B''), (''Math'', Num 1), (''total'', Num 1)],
        [(''filename'', Str ''two.png''), (''Set'', Str ''Set B''), (''Math'', Num 1), (''total'', Num 1)]] \<and>
   map p_student_code
     (posts (evaluation_loop (demo_env\<lparr>post_result := (\<lambda>payload. Inl (Exn ''timed out''))\<rparr>) keyed_cfg [sheet1, sheet2]))
     = [''one'', ''two'']"
proof -
  have "results (evaluation_loop demo_env keyed_cfg [sheet1, sheet2])
     = [[(''filename'', Str ''one.png''), (''Set'', Str ''Set B''), (''Math'', Num 1), (''total'', Num 1)],
        [(''filename'', Str ''two.png''), (''Set'', Str ''Set B''), (''Math'', Num 1), (''total'', Num 1)]]"
    and "map p_student_code (posts (evaluation_loop demo_env keyed_cfg [sheet1, sheet2])) = [''one'', ''two'']"
    by (simp_all add: demo_defs)
  with post_outcome_ignored [where env = demo_env and p = "\<lambda>payload. Inl (Exn ''timed out'')"
      and cfg = keyed_cfg and files = "[sheet1, sheet2]"]
  show ?thesis
    by simp
qed

subsection \<open>The cap on the batch\<close>

text \<open>
  C9. With more than 500 uploads the warning is shown, the loop runs over the first
  500 files in upload order, the results are the rows of those files in that order,
  each file contributing at least one row, and the whole outcome is the outcome of
  uploading the first 500 files only.
\<close>

theorem first_500_only:
  assumes "500 < length uploaded_files"
  shows "too_many_warning uploaded_files \<and>
         (\<exists>out. app_run env cfg True uploaded_files = Some out \<and>
            out_state out = evaluation_loop env cfg (take 500 uploaded_files) \<and>
            results (out_state out) = concat (map (image_rows env cfg) (take 500 uploaded_files)) \<and>
            [] \<notin> set (map (image_rows env cfg) (take 500 uploaded_files))) \<and>
         app_run env cfg True uploaded_files = app_run env cfg True (take 500 uploaded_files)"
proof -
  from assms have ne: "uploaded_files \<noteq> []" "take 500 uploaded_files \<noteq> []"
    by auto
  from assms have ev: "evaluated_files uploaded_files = take 500 uploaded_files"
    "evaluated_files (take 500 uploaded_files) = take 500 uploaded_files"
    by (simp_all add: evaluated_files_def)
  show ?thesis
    using assms ne ev
    by (auto simp: app_run_def Let_def too_many_warning_def loop_results image_rows_nonempty [symmetric])
qed

theorem first_500_only_witness:
  "too_many_warning (replicate 501 sheet1) \<and>
   app_run demo_env demo_cfg True (replicate 501 sheet1)
     = app_run demo_env demo_cfg True (replicate 500 sheet1) \<and>
   map_option (length \<circ> results \<circ> out_state) (app_run demo_env demo_cfg True (replicate 501 sheet1))
     = Some 500"
proof -
  have h: "500 < length (replicate 501 sheet1)"
    by simp
  have r: "image_rows demo_env demo_cfg sheet1 = [[(''filename'', Str ''one.png''), (''Set'', Str ''A'')]]"
    by (simp add: image_rows_def demo_defs)
  have t: "take 500 (replicate 501 sheet1) = replicate 500 sheet1"
    by simp
  from first_500_only [OF h, of demo_env demo_cfg] obtain out where
    w: "too_many_warning (replicate 501 sheet1)"
    and o: "app_run demo_env demo_cfg True (replicate 501 sheet1) = Some out"
    and res: "results (out_state out) = concat (map (image_rows demo_env demo_cfg) (replicate 500 sheet1))"
    and same: "app_run demo_env demo_cfg True (replicate 501 sheet1)
      = app_run demo_env demo_cfg True (replicate 500 sheet1)"
    unfolding t by blast
  from res have "length (results (out_state out)) = 500"
    by (simp add: r length_concat sum_list_replicate)
  with w o same show ?thesis
    by simp
qed

subsection \<open>Runs without an answer key\<close>

lemma add_subjects_unscored:
  "set ss \<subseteq> set subs \<Longrightarrow>
     add_subjects (\<lambda>s. if s \<in> set subs then Some None else None) ss row = Inr row"
  by (induction ss) auto

lemma score_answers_no_key:
  "\<not> truthy (key_map cfg) \<Longrightarrow>
     score_answers env cfg ans = Inr (\<lambda>s. if s \<in> set (subjects cfg) then Some None else None, None)"
  by (auto simp: score_answers_def truthy_def split: option.splits)

lemma summary_row_no_key:
  "summary_row cfg uf (\<lambda>s. if s \<in> set (subjects cfg) then Some None else None) None = Inr (base_row cfg uf)"
  by (simp add: summary_row_def add_subjects_unscored)

lemma after_answers_no_key:
  assumes "\<not> truthy (key_map cfg)"
  shows "after_answers env cfg uf ans st =
     (case add_sheet env cfg uf ans (st\<lparr>results := results st @ [base_row cfg uf]\<rparr>) of
        Inl e \<Rightarrow> (st\<lparr>results := results st @ [base_row cfg uf]\<rparr>, Some e)
      | Inr st2 \<Rightarrow> (st2, None))"
  using assms
  by (simp add: after_answers_def score_answers_no_key summary_row_no_key save_result_def Let_def
      split: sum.splits)

lemma image_rows_no_key:
  assumes "\<not> truthy (key_map cfg)"
  shows "image_rows env cfg uf = [base_row cfg uf] \<or>
         (\<exists>e. image_rows env cfg uf = [base_row cfg uf, error_row uf e]) \<or>
         (\<exists>e. image_rows env cfg uf = [error_row uf e])"
  by (auto simp: image_rows_def image_step_def try_body_def after_answers_no_key [OF assms] add_sheet_def Let_def
      split: sum.splits)

lemma detection_step:
  assumes "load_image env uf = Inr img" "resolve_call env cfg img = Inr call"
    "evaluate_by_questions env call = Inr ans"
  shows "det_calls (image_step env cfg st uf) = det_calls st @ [call]"
    and "answers (image_step env cfg st uf) = Some ans"
  using assms
  by (auto simp: image_step_def try_body_def after_answers_def add_sheet_def save_result_def Let_def
      split: sum.splits option.splits prod.splits)

lemma sheet_step_no_key:
  assumes "\<not> truthy (key_map cfg)"
    "load_image env uf = Inr img" "resolve_call env cfg img = Inr call"
    "evaluate_by_questions env call = Inr ans"
    "\<not> large_batch cfg" "format_answers_as_columns env ans = Inr cols" "data_frame env cols = Inr df"
  shows "detailed_sheets (image_step env cfg st uf) = detailed_sheets st @ [(uf_name uf, df)]"
    and "results (image_step env cfg st uf) = results st @ [base_row cfg uf]"
  using assms
  by (auto simp: image_step_def try_body_def after_answers_no_key add_sheet_def Let_def)

lemma scorer_unused_step:
  assumes "\<not> truthy (key_map cfg)"
  shows "image_step (env\<lparr>compute_scores_from_answers := f\<rparr>) cfg st uf = image_step env cfg st uf"
proof -
  let ?env = "env\<lparr>compute_scores_from_answers := f\<rparr>"
  have a: "load_image ?env = load_image env"
    by (intro ext) (simp add: load_image_def split: sum.splits prod.splits)
  have b: "resolve_call ?env = resolve_call env"
    by (intro ext) (simp add: resolve_call_def split: option.splits sum.splits prod.splits)
  have c: "score_answers ?env cfg = score_answers env cfg"
    using assms by (intro ext) (simp add: score_answers_no_key)
  have d: "add_sheet ?env = add_sheet env"
    by (intro ext) (simp add: add_sheet_def split: sum.splits)
  have e: "save_result ?env = save_result env"
    by (intro ext) (simp add: save_result_def make_payload_def Let_def split: option.splits sum.splits)
  have f: "evaluate_by_questions ?env = evaluate_by_questions env"
    by simp
  show ?thesis
    unfolding image_step_def try_body_def after_answers_def a b c d e f ..
qed

text \<open>
  C6. In a run without an answer key (none loaded, or an empty one) every result row
  holds the file name and either the set or an error, and no subject score or total;
  the scorer has no influence on the run; and for every image that is decoded and
  whose questions resolve, the detector is called, its answers are bound, and, outside
  large-batch mode, the per-image sheet is built from them.
\<close>

theorem no_key_no_scores:
  assumes "\<not> truthy (key_map cfg)"
  shows "(\<forall>r\<in>set (results (evaluation_loop env cfg files)).
            \<exists>uf\<in>set files. r = base_row cfg uf \<or> (\<exists>e. r = error_row uf e)) \<and>
         evaluation_loop (env\<lparr>compute_scores_from_answers := f\<rparr>) cfg files = evaluation_loop env cfg files \<and>
         (load_image env uf = Inr img \<and> resolve_call env cfg img = Inr call \<and>
          evaluate_by_questions env call = Inr ans \<longrightarrow>
            det_calls (image_step env cfg st uf) = det_calls st @ [call] \<and>
            answers (image_step env cfg st uf) = Some ans \<and>
            (\<not> large_batch cfg \<and> format_answers_as_columns env ans = Inr cols \<and>
             data_frame env cols = Inr df \<longrightarrow>
               detailed_sheets (image_step env cfg st uf) = detailed_sheets st @ [(uf_name uf, df)] \<and>
               results (image_step env cfg st uf) = results st @ [base_row cfg uf]))"
proof (intro conjI)
  show "\<forall>r\<in>set (results (evaluation_loop env cfg files)).
            \<exists>uf\<in>set files. r = base_row cfg uf \<or> (\<exists>e. r = error_row uf e)"
  proof
    fix r assume "r \<in> set (results (evaluation_loop env cfg files))"
    then obtain uf where uf: "uf \<in> set files" "r \<in> set (image_rows env cfg uf)"
      by (auto simp: loop_results)
    with image_rows_no_key [OF assms, of env uf] show "\<exists>uf\<in>set files. r = base_row cfg uf \<or> (\<exists>e. r = error_row uf e)"
      by (intro bexI [of _ uf]) auto
  qed
  have "image_step (env\<lparr>compute_scores_from_answers := f\<rparr>) cfg = image_step env cfg"
    by (intro ext) (rule scorer_unused_step [OF assms])
  then show "evaluation_loop (env\<lparr>compute_scores_from_answers := f\<rparr>) cfg files = evaluation_loop env cfg files"
    by (simp add: evaluation_loop_def)
  show "load_image env uf = Inr img \<and> resolve_call env cfg img = Inr call \<and>
          evaluate_by_questions env call = Inr ans \<longrightarrow>
            det_calls (image_step env cfg st uf) = det_calls st @ [call] \<and>
            answers (image_step env cfg st uf) = Some ans \<and>
            (\<not> large_batch cfg \<and> format_answers_as_columns env ans = Inr cols \<and>
             data_frame env cols = Inr df \<longrightarrow>
               detailed_sheets (image_step env cfg st uf) = detailed_sheets st @ [(uf_name uf, df)] \<and>
               results (image_step env cfg st uf) = results st @ [base_row cfg uf])"
    using detection_step [of env uf img cfg call ans st] sheet_step_no_key [OF assms, of env uf img call ans cols df st]
    by blast
qed

theorem no_key_no_scores_witness:
  "\<not> truthy (key_map demo_cfg) \<and>
   results (evaluation_loop demo_env demo_cfg [sheet1])
     = [[(''filename'', Str ''one.png''), (''Set'', Str ''A'')]] \<and>
   answers (image_step demo_env demo_cfg init_state sheet1) = Some ''answers of pixels1'' \<and>
   detailed_sheets (image_step demo_env demo_cfg init_state sheet1)
     = [(''one.png'', [(''Q'', [''answers of pixels1''])])]"
proof -
  have h: "\<not> truthy (key_map demo_cfg)"
    by (simp add: truthy_def demo_cfg_def)
  let ?call = "\<lparr>dc_image = ''pixels1'', dc_questions = template_questions demo_template,
                 dc_kwargs = alignment_kwargs demo_cfg\<rparr>"
  have a: "load_image demo_env sheet1 = Inr ''pixels1''"
    by (simp add: load_image_def demo_env_def sheet1_def)
  have b: "resolve_call demo_env demo_cfg ''pixels1'' = Inr ?call"
    by (simp add: resolve_call_def demo_env_def demo_cfg_def)
  have c: "evaluate_by_questions demo_env ?call = Inr ''answers of pixels1''"
    by (simp add: demo_env_def)
  have d: "\<not> large_batch demo_cfg"
    "format_answers_as_columns demo_env ''answers of pixels1'' = Inr [(''Q'', [''answers of pixels1''])]"
    "data_frame demo_env [(''Q'', [''answers of pixels1''])] = Inr [(''Q'', [''answers of pixels1''])]"
    by (simp_all add: demo_env_def demo_cfg_def)
  have r: "results (evaluation_loop demo_env demo_cfg [sheet1])
     = [[(''filename'', Str ''one.png''), (''Set'', Str ''A'')]]"
    by (simp add: demo_defs)
  from no_key_no_scores [OF h, of demo_env "[sheet1]" "\<lambda>ans km. Inl (Exn ''unused'')" sheet1
      "''pixels1''" ?call "''answers of pixels1''" init_state
      "[(''Q'', [''answers of pixels1''])]" "[(''Q'', [''answers of pixels1''])]"] a b c d h r
  show ?thesis
    by (simp add: sheet1_def)
qed


section \<open>Properties of the decision rule\<close>

lemma sorted_neg_rev: "sorted xs \<Longrightarrow> sorted (map uminus (rev xs))" for xs :: "rat list"
  by (induction xs) (auto simp: sorted_append)

lemma sort_neg: "sort (map uminus fs) = map uminus (rev (sort fs))" for fs :: "rat list"
  by (rule properties_for_sort) (simp_all add: sorted_neg_rev)

lemma neg_ranked: "map (\<lambda>p. - snd p) (ranked fs) = sort (map uminus fs)"
proof (rule properties_for_sort [symmetric])
  have "map uminus (map snd (enumerate 0 fs)) = map (\<lambda>p. - snd p) (enumerate 0 fs)"
    by (simp only: map_map comp_def)
  then have e: "map (\<lambda>p. - snd p) (enumerate 0 fs) = map uminus fs"
    by (simp only: map_snd_enumerate)
  have "mset (map (\<lambda>p. - snd p) (ranked fs)) = mset (map (\<lambda>p. - snd p) (enumerate 0 fs))"
    by (simp add: ranked_def)
  then show "mset (map (\<lambda>p. - snd p) (ranked fs)) = mset (map uminus fs)"
    by (simp only: e)
  show "sorted (map (\<lambda>p. - snd p) (ranked fs))"
    by (simp add: ranked_def)
qed

lemma map_snd_ranked: "map snd (ranked fs) = rev (sort fs)"
proof -
  have "map snd (ranked fs) = map uminus (map (\<lambda>p. - snd p) (ranked fs))"
    by (simp add: comp_def)
  also have "\<dots> = rev (sort fs)"
    by (simp add: neg_ranked sort_neg comp_def)
  finally show ?thesis .
qed

lemma ranked_member: "(i, v) \<in> set (ranked fs) \<Longrightarrow> i < length fs \<and> fs ! i = v"
  by (simp add: ranked_def in_set_enumerate_eq)

lemma ranked_two:
  assumes "2 \<le> length fs"
  obtains i j rest where
    "ranked fs = (i, rev (sort fs) ! 0) # (j, rev (sort fs) ! 1) # rest"
    "i < length fs" "fs ! i = rev (sort fs) ! 0"
proof -
  have len: "length (ranked fs) = length fs"
    by (simp add: ranked_def)
  with assms obtain p q rest where r: "ranked fs = p # q # rest"
    by (cases "ranked fs"; cases "tl (ranked fs)") auto
  obtain i a j b where pq: "p = (i, a)" "q = (j, b)"
    by (cases p; cases q) auto
  from map_snd_ranked [of fs] r pq have "rev (sort fs) = a # b # map snd rest"
    by simp
  then have ab: "a = rev (sort fs) ! 0" "b = rev (sort fs) ! 1"
    by simp_all
  from r pq have "(i, a) \<in> set (ranked fs)"
    by simp
  then have "i < length fs" "fs ! i = a"
    using ranked_member by blast+
  with r pq ab that show thesis
    by simp
qed

text \<open>
  C1. For a question with at least two options, with the fill fractions sorted
  descending: a top fraction below the threshold gives none-marked; otherwise a gap
  between the top two fractions below the margin gives ambiguous-multiple; otherwise
  the verdict is the index of an option that holds the top fraction.
\<close>

theorem verdict_rule:
  assumes "2 \<le> length fs"
  shows "(rev (sort fs) ! 0 < threshold \<longrightarrow> classify threshold margin fs = Some NoneMarked) \<and>
         (threshold \<le> rev (sort fs) ! 0 \<and> rev (sort fs) ! 0 - rev (sort fs) ! 1 < margin \<longrightarrow>
            classify threshold margin fs = Some AmbiguousMultiple) \<and>
         (threshold \<le> rev (sort fs) ! 0 \<and> margin \<le> rev (sort fs) ! 0 - rev (sort fs) ! 1 \<longrightarrow>
            (\<exists>i<length fs. fs ! i = rev (sort fs) ! 0 \<and> classify threshold margin fs = Some (Selected i)))"
proof -
  from assms obtain i j rest where
    r: "ranked fs = (i, rev (sort fs) ! 0) # (j, rev (sort fs) ! 1) # rest"
    and i: "i < length fs" "fs ! i = rev (sort fs) ! 0"
    by (rule ranked_two)
  from r have "classify threshold margin fs =
      Some (if rev (sort fs) ! 0 < threshold then NoneMarked
            else if rev (sort fs) ! 0 - rev (sort fs) ! 1 < margin then AmbiguousMultiple
            else Selected i)"
    by (simp add: classify_def)
  with i show ?thesis
    by auto
qed

theorem verdict_rule_witness:
  "classify (9 / 20) (3 / 25) [1 / 2, 23 / 50, 1 / 50] = Some AmbiguousMultiple"
proof -
  have s: "rev (sort [1 / 2, 23 / 50, 1 / 50 :: rat]) = [1 / 2, 23 / 50, 1 / 50]"
    by simp
  have l: "2 \<le> length [1 / 2, 23 / 50, 1 / 50 :: rat]"
    by simp
  show ?thesis
    using verdict_rule [OF l, of "9 / 20" "3 / 25"] unfolding s by simp
qed

text \<open>
  C7. Raising the fill threshold leaves the verdict as it is or turns it into
  none-marked, so a none-marked verdict stays none-marked; raising the margin leaves
  the verdict as it is or turns a single-option verdict into ambiguous-multiple, so an
  ambiguous verdict stays ambiguous.
\<close>

theorem verdict_monotone:
  "(threshold \<le> threshold' \<longrightarrow>
      classify threshold' margin fs = classify threshold margin fs \<or>
      classify threshold' margin fs = Some NoneMarked) \<and>
   (threshold \<le> threshold' \<and> classify threshold margin fs = Some NoneMarked \<longrightarrow>
      classify threshold' margin fs = Some NoneMarked) \<and>
   (margin \<le> margin' \<longrightarrow>
      classify threshold margin' fs = classify threshold margin fs \<or>
      (\<exists>i. classify threshold margin fs = Some (Selected i) \<and>
           classify threshold margin' fs = Some AmbiguousMultiple)) \<and>
   (margin \<le> margin' \<and> classify threshold margin fs = Some AmbiguousMultiple \<longrightarrow>
      classify threshold margin' fs = Some AmbiguousMultiple)"
  by (auto simp: classify_def split: list.splits prod.splits if_splits)

theorem verdict_monotone_witness:
  "classify (9 / 10) (3 / 25) [3 / 10, 1 / 5] = Some NoneMarked \<and>
   classify (9 / 20) (3 / 4) [1 / 2, 23 / 50, 1 / 50] = Some AmbiguousMultiple \<and>
   classify (9 / 10) (3 / 25) [4 / 5, 1 / 10, 1 / 20] = Some NoneMarked \<and>
   classify (9 / 20) (3 / 4) [4 / 5, 1 / 10, 1 / 20] = Some AmbiguousMultiple"
proof -
  have n: "classify (9 / 20) (3 / 25) [3 / 10, 1 / 5] = Some NoneMarked"
    by (simp add: classify_def ranked_def)
  have a: "classify (9 / 20) (3 / 25) [1 / 2, 23 / 50, 1 / 50] = Some AmbiguousMultiple"
    by (simp add: classify_def ranked_def)
  have s: "classify (9 / 20) (3 / 25) [4 / 5, 1 / 10, 1 / 20] = Some (Selected 0)"
    by (simp add: classify_def ranked_def)
  have t: "(9 / 20 :: rat) \<le> 9 / 10" and m: "(3 / 25 :: rat) \<le> 3 / 4"
    by simp_all
  have 1: "classify (9 / 10) (3 / 25) [3 / 10, 1 / 5] = Some NoneMarked"
    using verdict_monotone [of "9 / 20" "9 / 10" "3 / 25" "[3 / 10, 1 / 5]" "3 / 25"] t n by blast
  have 2: "classify (9 / 20) (3 / 4) [1 / 2, 23 / 50, 1 / 50] = Some AmbiguousMultiple"
    using verdict_monotone [of "9 / 20" "9 / 20" "3 / 25" "[1 / 2, 23 / 50, 1 / 50]" "3 / 4"] m a by blast
  have 3: "classify (9 / 10) (3 / 25) [4 / 5, 1 / 10, 1 / 20] = Some NoneMarked"
    by (simp add: classify_def ranked_def)
  have 4: "classify (9 / 20) (3 / 4) [4 / 5, 1 / 10, 1 / 20] = Some AmbiguousMultiple"
    by (simp add: classify_def ranked_def)
  from 1 2 3 4 show ?thesis by simp
qed

end
